theory Spec2Isabelle
  imports Complex_Main "HOL-Library.Word"
begin

section \<open>Data model\<close>

text \<open>
  A public key is identified by its base58 text. The scripts compare keys through their
  text (\<^verbatim>\<open>asset.owner.toString() === DESTINATION_WALLET.toBase58()\<close>) and base58 is
  a one-to-one encoding of 32-byte keys, so equality of texts is equality of keys.
\<close>

datatype pubkey = PublicKey string

type_synonym byte = "8 word"

text \<open>One entry of \<^verbatim>\<open>keys\<close> of a web3.js \<^verbatim>\<open>TransactionInstruction\<close>.\<close>

record account_meta =
  pubkey :: pubkey
  isWritable :: bool
  isSigner :: bool

record instruction =
  programId :: pubkey
  keys :: "account_meta list"
  data :: "byte list"

text \<open>
  Every \<^verbatim>\<open>throw\<close> of the scripts and every exception of a library call is a value.
  The scripts throw plain \<^verbatim>\<open>Error\<close> objects; the constructors name the throw sites:
  \<^item> \<open>ConfigurationError\<close>: "Missing or invalid NFT collection address configuration."
  \<^item> \<open>InvalidPublicKeyInput\<close>: the \<^verbatim>\<open>PublicKey\<close> constructor rejecting a text;
  \<^item> \<open>LowBalance\<close>: "Low wallet balance: ..." (the balance in lamports);
  \<^item> \<open>AssetNotFound\<close>: "Asset not found on chain";
  \<^item> \<open>NotOwner\<close>: "You are not the owner of this asset. Current owner is: ...";
  \<^item> \<open>External\<close>: an exception raised inside a library or by the RPC node.
\<close>

datatype error =
    ConfigurationError
  | InvalidPublicKeyInput
  | LowBalance nat
  | AssetNotFound
  | NotOwner pubkey
  | External string

text \<open>The errors the specification files under the name VerificationError.\<close>

fun is_VerificationError :: "error \<Rightarrow> bool" where
  "is_VerificationError AssetNotFound = True"
| "is_VerificationError (NotOwner k) = True"
| "is_VerificationError e = False"

text \<open>The parameter object handed to the Metaplex SDK on the Umi path.\<close>

record transfer_params =
  tp_asset :: pubkey
  tp_owner :: pubkey
  tp_delegate :: pubkey
  tp_collection :: pubkey
  tp_updateAuthority :: pubkey
  tp_newOwner :: pubkey
  tp_payer :: pubkey
  tp_systemProgram :: pubkey
  tp_sysvarRent :: pubkey
  tp_log :: pubkey

text \<open>What \<^verbatim>\<open>fetchAsset\<close> of mpl-core resolves to: the fields of the asset the scripts read.\<close>

record asset =
  asset_name :: string
  asset_owner :: pubkey
  asset_collection :: "pubkey option"

text \<open>
  A call of \<^verbatim>\<open>fetchAsset\<close> throws (\<open>Inl e\<close>), resolves to nothing (\<open>Inr None\<close>, the case
  the scripts test with \<^verbatim>\<open>!asset\<close>) or resolves to an asset.
\<close>

type_synonym fetch_response = "error + asset option"

text \<open>What \<^verbatim>\<open>connection.getAccountInfo\<close> resolves to: the owning program and the data size.\<close>

record account_info =
  ai_owner :: pubkey
  ai_data_length :: nat

text \<open>The parameter object \<^verbatim>\<open>transferParams\<close> of the direct transfer script.\<close>

record direct_params =
  dp_asset :: pubkey
  dp_authority :: pubkey
  dp_owner :: pubkey
  dp_newOwner :: pubkey
  dp_collection :: "pubkey option"
  dp_amount :: nat

text \<open>
  What the scripts do to the outside world, in the order they do it. Console output is
  not recorded. \<open>FetchAsset\<close> carries the response the call got. \<open>TransferV1\<close> is the
  construction of the transfer by the SDK and \<open>SendAndConfirm\<close> its submission;
  \<open>UmiCreateInstruction\<close> and \<open>NewTransactionInstruction\<close> are the two ways the Safe script
  makes its instruction, \<open>SafeCreateProposal\<close> and \<open>SafeExecuteProposal\<close> its network writes.
\<close>

datatype event =
    UmiCreateInstruction transfer_params
  | NewTransactionInstruction
  | SetupConnection
  | InitializeUmi
  | InitializeSafe
  | GetAccountInfo pubkey
  | FindSafeSignerAddress
  | SafeCreateProposal instruction
  | SafeFetchSafe
  | SafeFetchProposal
  | SafeExecuteProposal int
  | GetBalance
  | CreateUmi
  | FetchAsset pubkey fetch_response
  | TransferV1 direct_params
  | SendAndConfirm
  | Sleep rat

section \<open>Constants of the Safe script and key texts\<close>

definition PublicKey_default :: pubkey where
  "PublicKey_default = PublicKey ''11111111111111111111111111111111''"

definition SystemProgram_programId :: pubkey where
  "SystemProgram_programId = PublicKey ''11111111111111111111111111111111''"

definition SYSVAR_RENT_PUBKEY :: pubkey where
  "SYSVAR_RENT_PUBKEY = PublicKey ''SysvarRent111111111111111111111111111111111''"

definition SYSVAR_INSTRUCTIONS_PUBKEY :: pubkey where
  "SYSVAR_INSTRUCTIONS_PUBKEY = PublicKey ''Sysvar1nstructions1111111111111111111111111''"

definition METAPLEX_CORE_PROGRAM_ID :: pubkey where
  "METAPLEX_CORE_PROGRAM_ID = PublicKey ''CoREENxT6tW1HoK8ypY1SxRMZTcVPm7R94rH4PZNhX7d''"

fun toString :: "pubkey \<Rightarrow> string" where
  "toString (PublicKey s) = s"

text \<open>
  \<^verbatim>\<open>new PublicKey(text)\<close> is web3.js code: it throws on a text that is not the base58
  form of 32 bytes. The set of texts it accepts is a parameter of the model.
\<close>

definition new_PublicKey :: "string set \<Rightarrow> string \<Rightarrow> error + pubkey" where
  "new_PublicKey accepted s = (if s \<in> accepted then Inr (PublicKey s) else Inl InvalidPublicKeyInput)"

section \<open>The instruction builder\<close>

text \<open>\<^verbatim>\<open>new BN(v).toArrayLike(Buffer, 'le', n)\<close>: the \<open>n\<close> low bytes of \<open>v\<close>, lowest first.\<close>

fun toArrayLike_le :: "nat \<Rightarrow> nat \<Rightarrow> byte list" where
  "toArrayLike_le v 0 = []"
| "toArrayLike_le v (Suc n) = of_nat (v mod 256) # toArrayLike_le (v div 256) n"

definition transferDiscriminator :: "byte list" where
  "transferDiscriminator = [116, 97, 188, 150, 133, 175, 148, 44]"

definition someFlag :: "byte list" where
  "someFlag = [1]"

definition amountValue :: "byte list" where
  "amountValue = toArrayLike_le 1 8"

definition instructionData :: "byte list" where
  "instructionData = transferDiscriminator @ someFlag @ amountValue"

text \<open>The hand-built account list (the array literal \<^verbatim>\<open>accounts\<close>).\<close>

definition accounts :: "pubkey \<Rightarrow> pubkey \<Rightarrow> pubkey \<Rightarrow> pubkey \<Rightarrow> account_meta list" where
  "accounts safeSignerAddress assetAddress destination collectionAddress =
    [ \<lparr>pubkey = assetAddress, isWritable = True, isSigner = False\<rparr>,
      \<lparr>pubkey = safeSignerAddress, isWritable = False, isSigner = True\<rparr>,
      \<lparr>pubkey = PublicKey_default, isWritable = False, isSigner = False\<rparr>,
      \<lparr>pubkey = collectionAddress, isWritable = False, isSigner = False\<rparr>,
      \<lparr>pubkey = safeSignerAddress, isWritable = False, isSigner = False\<rparr>,
      \<lparr>pubkey = destination, isWritable = False, isSigner = False\<rparr>,
      \<lparr>pubkey = safeSignerAddress, isWritable = True, isSigner = True\<rparr>,
      \<lparr>pubkey = SystemProgram_programId, isWritable = False, isSigner = False\<rparr>,
      \<lparr>pubkey = SYSVAR_RENT_PUBKEY, isWritable = False, isSigner = False\<rparr>,
      \<lparr>pubkey = SYSVAR_INSTRUCTIONS_PUBKEY, isWritable = False, isSigner = False\<rparr> ]"

text \<open>The fallback: the \<^verbatim>\<open>TransactionInstruction\<close> made by hand from the literals above.\<close>

definition manualInstruction :: "pubkey \<Rightarrow> pubkey \<Rightarrow> pubkey \<Rightarrow> pubkey \<Rightarrow> instruction" where
  "manualInstruction safeSignerAddress assetAddress destination collectionAddress =
    \<lparr>programId = METAPLEX_CORE_PROGRAM_ID,
     keys = accounts safeSignerAddress assetAddress destination collectionAddress,
     data = instructionData\<rparr>"

definition transferParams :: "pubkey \<Rightarrow> pubkey \<Rightarrow> pubkey \<Rightarrow> pubkey \<Rightarrow> transfer_params" where
  "transferParams safeSignerAddress assetAddress destination collectionAddress =
    \<lparr>tp_asset = assetAddress,
     tp_owner = safeSignerAddress,
     tp_delegate = PublicKey ''11111111111111111111111111111111'',
     tp_collection = collectionAddress,
     tp_updateAuthority = safeSignerAddress,
     tp_newOwner = destination,
     tp_payer = safeSignerAddress,
     tp_systemProgram = SystemProgram_programId,
     tp_sysvarRent = SYSVAR_RENT_PUBKEY,
     tp_log = SYSVAR_INSTRUCTIONS_PUBKEY\<rparr>"

text \<open>
  The Umi path is library code. \<open>sdk = None\<close>: one of \<^verbatim>\<open>umiContext\<close>,
  \<^verbatim>\<open>createTransferV1Instruction\<close>, \<^verbatim>\<open>fromWeb3JsPublicKey\<close>, \<^verbatim>\<open>toWeb3JsInstruction\<close>
  is missing, and the \<^verbatim>\<open>if\<close> is skipped. \<open>sdk = Some f\<close>: the \<^verbatim>\<open>try\<close> block runs, with
  amount \<open>Some(1)\<close>; \<open>f p 1 = Some ins\<close> when it returns \<open>ins\<close>, and \<open>f p 1 = None\<close> when
  anything inside it throws, which the \<^verbatim>\<open>catch\<close> turns into the fallback.
\<close>

type_synonym sdk = "(transfer_params \<Rightarrow> nat \<Rightarrow> instruction option) option"

text \<open>
  \<^verbatim>\<open>createMetaplexCoreTransferInstruction(safeSignerAddress, assetAddress, destination)\<close>.
  Besides its arguments it reads \<^verbatim>\<open>process.env.NFT_COLLECTION_ADDRESS\<close> (\<open>None\<close> when
  the variable is not set) and the module-level SDK bindings.
\<close>

definition createMetaplexCoreTransferInstruction ::
  "string set \<Rightarrow> string option \<Rightarrow> sdk \<Rightarrow> pubkey \<Rightarrow> pubkey \<Rightarrow> pubkey
     \<Rightarrow> event list \<times> (error + instruction)" where
  "createMetaplexCoreTransferInstruction accepted NFT_COLLECTION_ADDRESS_env sdk
       safeSignerAddress assetAddress destination =
    (case NFT_COLLECTION_ADDRESS_env of
       None \<Rightarrow> ([], Inl ConfigurationError)
     | Some s \<Rightarrow>
        if s = [] \<or> s = toString PublicKey_default then ([], Inl ConfigurationError)
        else
          (case new_PublicKey accepted s of
             Inl e \<Rightarrow> ([], Inl e)
           | Inr collectionAddress \<Rightarrow>
              (let manual = ([NewTransactionInstruction],
                     Inr (manualInstruction safeSignerAddress assetAddress destination collectionAddress));
                   p = transferParams safeSignerAddress assetAddress destination collectionAddress
               in case sdk of
                    None \<Rightarrow> manual
                  | Some f \<Rightarrow>
                     (case f p 1 of
                        Some ins \<Rightarrow> ([UmiCreateInstruction p], Inr ins)
                      | None \<Rightarrow> (UmiCreateInstruction p # fst manual, snd manual)))))"

text \<open>The hand-built path is taken: the SDK is not bound, or its \<^verbatim>\<open>try\<close> block throws.\<close>

definition fallback_taken :: "sdk \<Rightarrow> transfer_params \<Rightarrow> bool" where
  "fallback_taken sdk p = (case sdk of None \<Rightarrow> True | Some f \<Rightarrow> f p 1 = None)"

section \<open>The submission loop of the Safe script\<close>

text \<open>
  \<^verbatim>\<open>safe.executeProposal(proposalAddress, options)\<close> is the Safe SDK's network call. Its
  outcome at each attempt is a parameter: \<open>Inr txid\<close> when it resolves, \<open>Inl e\<close> when it
  throws \<open>e\<close>.
\<close>

type_synonym submitter = "int \<Rightarrow> error + string"

text \<open>
  \<^verbatim>\<open>5000 * Math.pow(1.5, attempt - 1)\<close>, in milliseconds. JavaScript computes it in
  double precision; the model computes it exactly, over the rationals.
\<close>

definition waitTime :: "int \<Rightarrow> rat" where
  "waitTime attempt = 5000 * (3 / 2) powi (attempt - 1)"

text \<open>
  The \<^verbatim>\<open>for\<close> loop of \<^verbatim>\<open>executeProposal\<close>, from the value \<open>attempt\<close> of its counter on.
  \<open>maxRetries\<close> is an integer (of either sign). The result is the trace of the attempts
  and sleeps together with \<open>Inr (Some txid)\<close> for \<^verbatim>\<open>return txid\<close>, \<open>Inl e\<close> for
  \<^verbatim>\<open>throw error\<close>, and \<open>Inr None\<close> when the loop ends and the function returns
  \<^verbatim>\<open>undefined\<close>.
\<close>

function executeProposal_loop :: "submitter \<Rightarrow> int \<Rightarrow> int \<Rightarrow> event list \<times> (error + string option)" where
  "executeProposal_loop safe_executeProposal maxRetries attempt =
    (if attempt \<le> maxRetries then
       (case safe_executeProposal attempt of
          Inr txid \<Rightarrow> ([SafeExecuteProposal attempt], Inr (Some txid))
        | Inl e \<Rightarrow>
           if attempt < maxRetries then
             (let rest = executeProposal_loop safe_executeProposal maxRetries (attempt + 1)
              in (SafeExecuteProposal attempt # Sleep (waitTime attempt) # fst rest, snd rest))
           else ([SafeExecuteProposal attempt], Inl e))
     else ([], Inr None))"
  by pat_completeness auto
termination
  by (relation "measure (\<lambda>(f, maxRetries, attempt). nat (maxRetries + 1 - attempt))") auto

definition executeProposal :: "submitter \<Rightarrow> int \<Rightarrow> event list \<times> (error + string option)" where
  "executeProposal safe_executeProposal maxRetries =
     executeProposal_loop safe_executeProposal maxRetries 1"



section \<open>The Safe script: verification and orchestration\<close>

text \<open>
  The module constants of the Safe script. They are made from the environment when the
  module loads; the builder reads \<^verbatim>\<open>process.env.NFT_COLLECTION_ADDRESS\<close> again by itself.
\<close>

record safe_config =
  SAFE_ADDRESS :: pubkey
  NFT_ASSET_ADDRESS :: pubkey
  DESTINATION_WALLET_safe :: pubkey

text \<open>
  Everything outside the Safe script that its run depends on: the environment, the SDK
  bindings, and what each library or network call answers. \<open>setupConnection\<close> is
  \<open>Some e\<close> when it throws \<open>e\<close>; \<open>initializeUmi\<close> says whether a Umi context came back
  (the function catches its own errors); \<open>sdk_bindings\<close> is the Umi path as the builder
  finds it when the script calls it; \<open>getAccountInfo w k\<close> is the answer to the \<open>k\<close>-th
  call, counted from 0; \<open>safe_fetchSafe\<close> gives the approvals required,
  \<open>safe_fetchProposal\<close> the \<^verbatim>\<open>isApproved\<close> flags of the proposal's approvals. Making the
  SDK object in \<^verbatim>\<open>initializeSafe\<close> is taken not to throw.
\<close>

record safe_world =
  setupConnection :: "error option"
  initializeUmi :: bool
  sdk_bindings :: sdk
  accepted_keys :: "string set"
  env_NFT_COLLECTION_ADDRESS :: "string option"
  env_EXISTING_PROPOSAL :: "string option"
  getAccountInfo :: "nat \<Rightarrow> error + account_info option"
  findSafeSignerAddress :: "error + pubkey"
  safe_createProposal :: "instruction \<Rightarrow> error + pubkey"
  safe_fetchSafe :: "error + nat"
  safe_fetchProposal :: "error + bool list"
  safe_executeProposal :: submitter

text \<open>\<^verbatim>\<open>verifyNFTInSafe\<close>, on the answer its \<^verbatim>\<open>getAccountInfo\<close> call gets. It never throws.\<close>

definition verifyNFTInSafe :: "error + account_info option \<Rightarrow> bool" where
  "verifyNFTInSafe accountInfo =
    (case accountInfo of
       Inl e \<Rightarrow> False
     | Inr None \<Rightarrow> False
     | Inr (Some info) \<Rightarrow> if ai_owner info \<noteq> METAPLEX_CORE_PROGRAM_ID then False else True)"

text \<open>\<^verbatim>\<open>createTransferProposal\<close>: every error is rethrown to the caller.\<close>

definition createTransferProposal :: "safe_config \<Rightarrow> safe_world \<Rightarrow> event list \<times> (error + pubkey)" where
  "createTransferProposal c w =
    (case findSafeSignerAddress w of
       Inl e \<Rightarrow> ([FindSafeSignerAddress], Inl e)
     | Inr safeSignerAddress \<Rightarrow>
        (case createMetaplexCoreTransferInstruction (accepted_keys w)
                (env_NFT_COLLECTION_ADDRESS w) (sdk_bindings w)
                safeSignerAddress (NFT_ASSET_ADDRESS c) (DESTINATION_WALLET_safe c) of
           (evs, Inl e) \<Rightarrow> (FindSafeSignerAddress # evs, Inl e)
         | (evs, Inr transferIx) \<Rightarrow>
            (case safe_createProposal w transferIx of
               Inl e \<Rightarrow> (FindSafeSignerAddress # evs @ [SafeCreateProposal transferIx], Inl e)
             | Inr proposalAddress \<Rightarrow>
                (FindSafeSignerAddress # evs @ [SafeCreateProposal transferIx],
                 Inr proposalAddress))))"

text \<open>How a run of \<^verbatim>\<open>retrieveNFTFromSafe\<close> ends; the function itself always returns undefined.\<close>

datatype ending =
    Completed
  | AbortedUmi
  | AbortedVerification
  | Caught error

text \<open>The part of \<^verbatim>\<open>retrieveNFTFromSafe\<close> after the proposal address is known.\<close>

definition executeApproved :: "safe_config \<Rightarrow> safe_world \<Rightarrow> event list \<times> ending" where
  "executeApproved c w =
    (case safe_fetchSafe w of
       Inl e \<Rightarrow> ([Sleep 5000, SafeFetchSafe], Caught e)
     | Inr approvalsRequired \<Rightarrow>
        (let approvalCount =
               (case safe_fetchProposal w of
                  Inl fetchError \<Rightarrow> approvalsRequired
                | Inr approvals \<Rightarrow> length (filter (\<lambda>a. a) approvals))
         in if approvalCount \<ge> approvalsRequired then
              (case executeProposal (safe_executeProposal w) 3 of
                 (evs, Inl e) \<Rightarrow> ([Sleep 5000, SafeFetchSafe, SafeFetchProposal] @ evs, Caught e)
               | (evs, Inr txid) \<Rightarrow>
                  ([Sleep 5000, SafeFetchSafe, SafeFetchProposal] @ evs
                     @ [Sleep 5000, GetAccountInfo (NFT_ASSET_ADDRESS c)], Completed))
            else ([Sleep 5000, SafeFetchSafe, SafeFetchProposal], Completed)))"

text \<open>
  \<^verbatim>\<open>retrieveNFTFromSafe\<close>. An existing proposal address is used when
  \<^verbatim>\<open>EXISTING_PROPOSAL\<close> is set to a text the \<^verbatim>\<open>PublicKey\<close> constructor accepts; otherwise
  a proposal is created.
\<close>

definition retrieveNFTFromSafe :: "safe_config \<Rightarrow> safe_world \<Rightarrow> event list \<times> ending" where
  "retrieveNFTFromSafe c w =
    (case setupConnection w of
       Some e \<Rightarrow> ([SetupConnection], Caught e)
     | None \<Rightarrow>
        if \<not> initializeUmi w then ([SetupConnection, InitializeUmi], AbortedUmi)
        else if \<not> verifyNFTInSafe (getAccountInfo w 0) then
          ([SetupConnection, InitializeUmi, InitializeSafe, GetAccountInfo (NFT_ASSET_ADDRESS c)],
           AbortedVerification)
        else
          (let started = [SetupConnection, InitializeUmi, InitializeSafe,
                          GetAccountInfo (NFT_ASSET_ADDRESS c)];
               useExisting = (case env_EXISTING_PROPOSAL w of
                                None \<Rightarrow> False
                              | Some t \<Rightarrow> t \<noteq> [] \<and> t \<in> accepted_keys w)
           in if useExisting then
                (started @ fst (executeApproved c w), snd (executeApproved c w))
              else
                (case createTransferProposal c w of
                   (evs, Inl e) \<Rightarrow> (started @ evs, Caught e)
                 | (evs, Inr proposalAddress) \<Rightarrow>
                    (started @ evs @ fst (executeApproved c w), snd (executeApproved c w)))))"

text \<open>The events that make a transfer instruction or write to the network.\<close>

fun builds_or_submits :: "event \<Rightarrow> bool" where
  "builds_or_submits (UmiCreateInstruction p) = True"
| "builds_or_submits NewTransactionInstruction = True"
| "builds_or_submits (SafeCreateProposal ix) = True"
| "builds_or_submits (SafeExecuteProposal k) = True"
| "builds_or_submits (TransferV1 p) = True"
| "builds_or_submits SendAndConfirm = True"
| "builds_or_submits ev = False"

section \<open>The direct transfer script\<close>

text \<open>The module constants of the direct script, made from the environment at load.\<close>

record direct_config =
  wallet_publicKey :: pubkey
  ASSET_ADDRESS :: pubkey
  DESTINATION_WALLET :: pubkey
  COLLECTION_ADDRESS :: "pubkey option"

text \<open>
  What \<^verbatim>\<open>transferV1(umi, transferParams).sendAndConfirm(umi, sendOptions)\<close> does:
  the SDK throws while making the transfer, the send or its confirmation throws, or the
  call resolves with a signature. With \<^verbatim>\<open>skipPreflight\<close> a resolved call may still
  report a failed transaction: the flag says whether the reported result is free of an
  error. The script reads the signature only.
\<close>

datatype send_outcome =
    BuildThrows error
  | SendThrows error
  | Sent string bool

text \<open>
  The outside of the direct script. \<open>createUmi\<close> is \<open>Some e\<close> when making the Umi instance
  throws \<open>e\<close>; \<open>getBalance\<close> is the balance in lamports; \<open>fetchAsset w k\<close> is the answer to
  the \<open>k\<close>-th call of \<^verbatim>\<open>fetchAsset\<close>, counted from 0, so that the chain may change between
  two reads.
\<close>

record direct_world =
  getBalance :: "error + nat"
  createUmi :: "error option"
  fetchAsset :: "nat \<Rightarrow> fetch_response"
  sendAndConfirm :: send_outcome

text \<open>What \<^verbatim>\<open>transferNFT\<close> returns: the "no transfer needed" text, or a boolean.\<close>

datatype ret = RetString string | RetBool bool

text \<open>The number of \<^verbatim>\<open>fetchAsset\<close> calls made so far.\<close>

fun fetches_in :: "event list \<Rightarrow> nat" where
  "fetches_in [] = 0"
| "fetches_in (FetchAsset a r # evs) = Suc (fetches_in evs)"
| "fetches_in (ev # evs) = fetches_in evs"

definition call_fetchAsset :: "direct_world \<Rightarrow> pubkey \<Rightarrow> event list \<Rightarrow> fetch_response \<times> event list" where
  "call_fetchAsset w addr tr =
     (fetchAsset w (fetches_in tr), tr @ [FetchAsset addr (fetchAsset w (fetches_in tr))])"

text \<open>\<^verbatim>\<open>verifyAssetOwnership\<close>: one read; an exception or a missing asset counts as false.\<close>

definition verifyAssetOwnership :: "direct_world \<Rightarrow> pubkey \<Rightarrow> pubkey \<Rightarrow> event list \<Rightarrow> bool \<times> event list" where
  "verifyAssetOwnership w assetAddress expectedOwner tr =
    (case call_fetchAsset w assetAddress tr of
       (Inl e, tr') \<Rightarrow> (False, tr')
     | (Inr None, tr') \<Rightarrow> (False, tr')
     | (Inr (Some a), tr') \<Rightarrow> (toString (asset_owner a) = toString expectedOwner, tr'))"

text \<open>
  The object \<^verbatim>\<open>transferParams\<close>: the collection is the configured one, else the one
  the fetched asset names, else none; the amount is 1.
\<close>

definition directTransferParams :: "direct_config \<Rightarrow> asset \<Rightarrow> direct_params" where
  "directTransferParams c a =
     \<lparr>dp_asset = ASSET_ADDRESS c, dp_authority = wallet_publicKey c,
      dp_owner = wallet_publicKey c, dp_newOwner = DESTINATION_WALLET c,
      dp_collection = (case COLLECTION_ADDRESS c of Some k \<Rightarrow> Some k | None \<Rightarrow> asset_collection a),
      dp_amount = 1\<rparr>"

text \<open>
  The inner \<^verbatim>\<open>try\<close>/\<^verbatim>\<open>catch\<close> around the submission: whatever the outcome, control
  goes on to the wait; the signature is only printed. What remains is the effect.
\<close>

definition submission :: "direct_params \<Rightarrow> send_outcome \<Rightarrow> event list" where
  "submission p outcome =
     (case outcome of
        BuildThrows e \<Rightarrow> [TransferV1 p]
      | SendThrows e \<Rightarrow> [TransferV1 p, SendAndConfirm]
      | Sent signature ok \<Rightarrow> [TransferV1 p, SendAndConfirm])"

text \<open>
  Lines "Try the transfer" to the end of the \<^verbatim>\<open>try\<close> block: the submission, the wait,
  the ownership check and, when that says no, the second check.
\<close>

definition submitAndVerify :: "direct_config \<Rightarrow> direct_world \<Rightarrow> asset \<Rightarrow> event list \<Rightarrow> (error + ret) \<times> event list" where
  "submitAndVerify c w a tr =
    (case verifyAssetOwnership w (ASSET_ADDRESS c) (DESTINATION_WALLET c)
            (tr @ submission (directTransferParams c a) (sendAndConfirm w) @ [Sleep 5000]) of
       (True, tr') \<Rightarrow> (Inr (RetBool True), tr')
     | (False, tr') \<Rightarrow>
        (case call_fetchAsset w (ASSET_ADDRESS c) tr' of
           (Inl e, tr'') \<Rightarrow> (Inl e, tr'')
         | (Inr None, tr'') \<Rightarrow> (Inr (RetBool False), tr'')
         | (Inr (Some a2), tr'') \<Rightarrow>
            (Inr (RetBool (toString (asset_owner a2) = toString (DESTINATION_WALLET c))), tr'')))"

text \<open>
  The \<^verbatim>\<open>try\<close> block of \<^verbatim>\<open>transferNFT\<close>: \<open>Inl e\<close> when it throws \<open>e\<close>, \<open>Inr r\<close> when
  it returns \<open>r\<close>. The threshold \<^verbatim>\<open>0.01 * 10 ** 9\<close> is 10000000 lamports.
\<close>

definition transferNFT_try :: "direct_config \<Rightarrow> direct_world \<Rightarrow> (error + ret) \<times> event list" where
  "transferNFT_try c w =
    (case getBalance w of
       Inl e \<Rightarrow> (Inl e, [GetBalance])
     | Inr balance \<Rightarrow>
        if balance < 10000000 then (Inl (LowBalance balance), [GetBalance])
        else
          (case createUmi w of
             Some e \<Rightarrow> (Inl e, [GetBalance, CreateUmi])
           | None \<Rightarrow>
              (case call_fetchAsset w (ASSET_ADDRESS c) [GetBalance, CreateUmi] of
                 (Inl e, tr) \<Rightarrow> (Inl e, tr)
               | (Inr None, tr) \<Rightarrow> (Inl AssetNotFound, tr)
               | (Inr (Some a), tr) \<Rightarrow>
                  if toString (asset_owner a) = toString (DESTINATION_WALLET c) then
                    (Inr (RetString ''No transfer needed - already owned by destination wallet''), tr)
                  else if toString (asset_owner a) \<noteq> toString (wallet_publicKey c) then
                    (Inl (NotOwner (asset_owner a)), tr)
                  else submitAndVerify c w a tr)))"

text \<open>
  \<^verbatim>\<open>transferNFT\<close>: the \<^verbatim>\<open>try\<close> block and its \<^verbatim>\<open>catch\<close>, which checks the ownership
  once more and returns the verdict; an exception in there gives false.
\<close>

definition transferNFT :: "direct_config \<Rightarrow> direct_world \<Rightarrow> ret \<times> event list" where
  "transferNFT c w =
    (case transferNFT_try c w of
       (Inr r, tr) \<Rightarrow> (r, tr)
     | (Inl e, tr) \<Rightarrow>
        (case createUmi w of
           Some verifyError \<Rightarrow> (RetBool False, tr @ [CreateUmi])
         | None \<Rightarrow>
            (case verifyAssetOwnership w (ASSET_ADDRESS c) (DESTINATION_WALLET c)
                    (tr @ [CreateUmi, Sleep 5000]) of
               (isTransferred, tr') \<Rightarrow> (RetBool isTransferred, tr'))))"

text \<open>\<^verbatim>\<open>process.exit(result ? 0 : 1)\<close>: a non-empty text is truthy.\<close>

fun exit_code :: "ret \<Rightarrow> nat" where
  "exit_code (RetBool b) = (if b then 0 else 1)"
| "exit_code (RetString t) = (if t = [] then 1 else 0)"

text \<open>
  The reads of the asset made after the transfer was handed to the SDK: the responses of
  the \<^verbatim>\<open>fetchAsset\<close> calls that follow the first \<open>TransferV1\<close> event of a trace.
\<close>

fun responses_of :: "event list \<Rightarrow> fetch_response list" where
  "responses_of [] = []"
| "responses_of (FetchAsset a r # evs) = r # responses_of evs"
| "responses_of (ev # evs) = responses_of evs"

fun reads_after_submission :: "event list \<Rightarrow> fetch_response list" where
  "reads_after_submission [] = []"
| "reads_after_submission (TransferV1 p # evs) = responses_of evs"
| "reads_after_submission (ev # evs) = reads_after_submission evs"

text \<open>A read that shows the given key in the asset's owner field.\<close>

fun shows_owner :: "pubkey \<Rightarrow> fetch_response \<Rightarrow> bool" where
  "shows_owner k (Inr (Some a)) = (asset_owner a = k)"
| "shows_owner k r = False"

section \<open>Properties of the builder\<close>

lemma toString_eq_iff [simp]: "toString a = toString b \<longleftrightarrow> a = b"
  by (cases a, cases b) simp





lemma builder_result_cases:
  assumes "snd (createMetaplexCoreTransferInstruction accepted env sdk signer asset dest) = Inr ins"
  shows "\<exists>s. env = Some s \<and> s \<noteq> [] \<and> s \<noteq> toString PublicKey_default \<and> s \<in> accepted \<and>
           (if fallback_taken sdk (transferParams signer asset dest (PublicKey s))
            then ins = manualInstruction signer asset dest (PublicKey s)
            else \<exists>f. sdk = Some f \<and> f (transferParams signer asset dest (PublicKey s)) 1 = Some ins)"
  using assms
  by (auto simp: createMetaplexCoreTransferInstruction_def new_PublicKey_def fallback_taken_def
      Let_def split: option.splits if_splits sum.splits)


lemma manualInstruction_keys:
  "keys (manualInstruction signer asset dest coll) = accounts signer asset dest coll"
  by (simp add: manualInstruction_def)


subsection \<open>Account list\<close>




subsection \<open>Instruction data\<close>



subsection \<open>Missing collection\<close>

text \<open>
  C4: with \<^verbatim>\<open>NFT_COLLECTION_ADDRESS\<close> unset, empty, or equal to the text of the default
  ("unset") key, the builder throws its configuration error first: nothing has happened
  before the throw (no library call, no instruction made, and the builder makes no
  network call on any path), whatever the SDK bindings and the arguments are.
\<close>

theorem C4_missing_collection:
  "createMetaplexCoreTransferInstruction accepted None sdk owner asset dest
     = ([], Inl ConfigurationError)
   \<and> createMetaplexCoreTransferInstruction accepted (Some []) sdk owner asset dest
     = ([], Inl ConfigurationError)
   \<and> createMetaplexCoreTransferInstruction accepted (Some (toString PublicKey_default))
        sdk owner asset dest
     = ([], Inl ConfigurationError)
   \<and> createMetaplexCoreTransferInstruction accepted
        (Some ''11111111111111111111111111111111'') sdk owner asset dest
     = ([], Inl ConfigurationError)"
  by (simp add: createMetaplexCoreTransferInstruction_def PublicKey_default_def)

subsection \<open>Determinism\<close>



subsection \<open>One key in three roles\<close>

text \<open>
  C10: in every instruction made by hand, the key passed as current owner (the safe signer
  address) is the key at account indices 1 (current owner), 4 (update authority) and 6
  (payer); entry 1 is a signer and not writable, entry 6 is a signer and writable.
\<close>

theorem C10_owner_roles:
  assumes "snd (createMetaplexCoreTransferInstruction accepted (Some s) sdk owner asset dest)
             = Inr ins"
    and "fallback_taken sdk (transferParams owner asset dest (PublicKey s))"
  shows "pubkey (keys ins ! 1) = owner \<and> pubkey (keys ins ! 4) = owner
       \<and> pubkey (keys ins ! 6) = owner
       \<and> isSigner (keys ins ! 1) \<and> \<not> isWritable (keys ins ! 1)
       \<and> isSigner (keys ins ! 6) \<and> isWritable (keys ins ! 6)"
proof -
  from builder_result_cases [OF assms(1)] assms(2)
  have "ins = manualInstruction owner asset dest (PublicKey s)" by auto
  then show ?thesis
    by (simp add: manualInstruction_keys accounts_def)
qed


text \<open>The clock sysvar key standing in for the safe signer address.\<close>

theorem C10_owner_roles_witness:
  "snd (createMetaplexCoreTransferInstruction
          {''Memo1UhkJRfHyvLMcVucJwxXeuD728EqVDDwQDxFMNo''}
          (Some ''Memo1UhkJRfHyvLMcVucJwxXeuD728EqVDDwQDxFMNo'') None
          (PublicKey ''SysvarC1ock11111111111111111111111111111111'')
          (PublicKey ''TokenkegQfeZyiNwAJbNbGKPFXCWuBvf9Ss623VQ5DA'')
          (PublicKey ''Stake11111111111111111111111111111111111111''))
   = Inr (manualInstruction
          (PublicKey ''SysvarC1ock11111111111111111111111111111111'')
          (PublicKey ''TokenkegQfeZyiNwAJbNbGKPFXCWuBvf9Ss623VQ5DA'')
          (PublicKey ''Stake11111111111111111111111111111111111111'')
          (PublicKey ''Memo1UhkJRfHyvLMcVucJwxXeuD728EqVDDwQDxFMNo''))
   \<and> map pubkey (map (\<lambda>i. keys (manualInstruction
          (PublicKey ''SysvarC1ock11111111111111111111111111111111'')
          (PublicKey ''TokenkegQfeZyiNwAJbNbGKPFXCWuBvf9Ss623VQ5DA'')
          (PublicKey ''Stake11111111111111111111111111111111111111'')
          (PublicKey ''Memo1UhkJRfHyvLMcVucJwxXeuD728EqVDDwQDxFMNo'')) ! i) [1, 4, 6])
   = [PublicKey ''SysvarC1ock11111111111111111111111111111111'',
      PublicKey ''SysvarC1ock11111111111111111111111111111111'',
      PublicKey ''SysvarC1ock11111111111111111111111111111111'']
   \<and> isSigner (keys (manualInstruction
          (PublicKey ''SysvarC1ock11111111111111111111111111111111'')
          (PublicKey ''TokenkegQfeZyiNwAJbNbGKPFXCWuBvf9Ss623VQ5DA'')
          (PublicKey ''Stake11111111111111111111111111111111111111'')
          (PublicKey ''Memo1UhkJRfHyvLMcVucJwxXeuD728EqVDDwQDxFMNo'')) ! 1)
   \<and> \<not> isWritable (keys (manualInstruction
          (PublicKey ''SysvarC1ock11111111111111111111111111111111'')
          (PublicKey ''TokenkegQfeZyiNwAJbNbGKPFXCWuBvf9Ss623VQ5DA'')
          (PublicKey ''Stake11111111111111111111111111111111111111'')
          (PublicKey ''Memo1UhkJRfHyvLMcVucJwxXeuD728EqVDDwQDxFMNo'')) ! 1)
   \<and> isSigner (keys (manualInstruction
          (PublicKey ''SysvarC1ock11111111111111111111111111111111'')
          (PublicKey ''TokenkegQfeZyiNwAJbNbGKPFXCWuBvf9Ss623VQ5DA'')
          (PublicKey ''Stake11111111111111111111111111111111111111'')
          (PublicKey ''Memo1UhkJRfHyvLMcVucJwxXeuD728EqVDDwQDxFMNo'')) ! 6)
   \<and> isWritable (keys (manualInstruction
          (PublicKey ''SysvarC1ock11111111111111111111111111111111'')
          (PublicKey ''TokenkegQfeZyiNwAJbNbGKPFXCWuBvf9Ss623VQ5DA'')
          (PublicKey ''Stake11111111111111111111111111111111111111'')
          (PublicKey ''Memo1UhkJRfHyvLMcVucJwxXeuD728EqVDDwQDxFMNo'')) ! 6)"
proof -
  let ?m = "manualInstruction
          (PublicKey ''SysvarC1ock11111111111111111111111111111111'')
          (PublicKey ''TokenkegQfeZyiNwAJbNbGKPFXCWuBvf9Ss623VQ5DA'')
          (PublicKey ''Stake11111111111111111111111111111111111111'')
          (PublicKey ''Memo1UhkJRfHyvLMcVucJwxXeuD728EqVDDwQDxFMNo'')"
  have r: "snd (createMetaplexCoreTransferInstruction
          {''Memo1UhkJRfHyvLMcVucJwxXeuD728EqVDDwQDxFMNo''}
          (Some ''Memo1UhkJRfHyvLMcVucJwxXeuD728EqVDDwQDxFMNo'') None
          (PublicKey ''SysvarC1ock11111111111111111111111111111111'')
          (PublicKey ''TokenkegQfeZyiNwAJbNbGKPFXCWuBvf9Ss623VQ5DA'')
          (PublicKey ''Stake11111111111111111111111111111111111111'')) = Inr ?m"
    by (simp add: createMetaplexCoreTransferInstruction_def new_PublicKey_def
        PublicKey_default_def)
  have f: "fallback_taken None (transferParams
          (PublicKey ''SysvarC1ock11111111111111111111111111111111'')
          (PublicKey ''TokenkegQfeZyiNwAJbNbGKPFXCWuBvf9Ss623VQ5DA'')
          (PublicKey ''Stake11111111111111111111111111111111111111'')
          (PublicKey ''Memo1UhkJRfHyvLMcVucJwxXeuD728EqVDDwQDxFMNo''))"
    by (simp add: fallback_taken_def)
  from C10_owner_roles [OF r f] r show ?thesis by simp
qed

section \<open>Properties of the submission loop\<close>

declare executeProposal_loop.simps [simp del]











text \<open>
  C9: with an attempt budget of 0 (or below) the loop body never runs: no attempt is
  made, nothing is thrown, and the function returns without a transaction id.
\<close>

theorem C9_no_budget:
  "maxRetries \<le> 0 \<Longrightarrow> executeProposal submit maxRetries = ([], Inr None)"
  unfolding executeProposal_def
  by (subst executeProposal_loop.simps) simp

text \<open>A budget of 0, with a submitter that would throw and with one that would succeed.\<close>

theorem C9_no_budget_witness:
  "executeProposal (\<lambda>k. Inl (External ''never called'')) 0 = ([], Inr None)
   \<and> executeProposal (\<lambda>k. Inr ''txid'') 0 = ([], Inr None)"
  using C9_no_budget [of 0 "\<lambda>k. Inl (External ''never called'')"]
    C9_no_budget [of 0 "\<lambda>k. Inr ''txid''"]
  by simp

section \<open>Properties of the direct transfer script\<close>

lemma fetches_in_append: "fetches_in (xs @ ys) = fetches_in xs + fetches_in ys"
  by (induction xs rule: fetches_in.induct) simp_all

lemma responses_of_append: "responses_of (xs @ ys) = responses_of xs @ responses_of ys"
  by (induction xs rule: responses_of.induct) simp_all

lemma verifyAssetOwnership_eq:
  "verifyAssetOwnership w addr k tr =
     (shows_owner k (fetchAsset w (fetches_in tr)),
      tr @ [FetchAsset addr (fetchAsset w (fetches_in tr))])"
  by (auto simp: verifyAssetOwnership_def call_fetchAsset_def split: sum.splits option.splits)

lemma submission_shape:
  "submission p outcome = [TransferV1 p] \<or> submission p outcome = [TransferV1 p, SendAndConfirm]"
  by (simp add: submission_def split: send_outcome.splits)

lemma fetches_in_submission [simp]: "fetches_in (submission p outcome) = 0"
  using submission_shape [of p outcome] by auto

lemma try_reaches_submission:
  assumes "getBalance w = Inr b" "10000000 \<le> b" "createUmi w = None"
    and "fetchAsset w 0 = Inr (Some a)" "asset_owner a = wallet_publicKey c"
    and "wallet_publicKey c \<noteq> DESTINATION_WALLET c"
  shows "transferNFT_try c w =
           submitAndVerify c w a [GetBalance, CreateUmi, FetchAsset (ASSET_ADDRESS c) (Inr (Some a))]"
  using assms by (simp add: transferNFT_try_def call_fetchAsset_def)

lemma submitAndVerify_eq:
  "submitAndVerify c w a tr =
    (let n = fetches_in tr;
         tr1 = tr @ submission (directTransferParams c a) (sendAndConfirm w)
                  @ [Sleep 5000, FetchAsset (ASSET_ADDRESS c) (fetchAsset w n)];
         tr2 = tr1 @ [FetchAsset (ASSET_ADDRESS c) (fetchAsset w (Suc n))]
     in if shows_owner (DESTINATION_WALLET c) (fetchAsset w n) then (Inr (RetBool True), tr1)
        else (case fetchAsset w (Suc n) of
                Inl e \<Rightarrow> (Inl e, tr2)
              | Inr x \<Rightarrow> (Inr (RetBool (shows_owner (DESTINATION_WALLET c) (fetchAsset w (Suc n)))), tr2)))"
proof -
  have f: "fetches_in (tr @ submission (directTransferParams c a) (sendAndConfirm w) @ [Sleep 5000])
             = fetches_in tr"
    by (simp add: fetches_in_append)
  show ?thesis
    unfolding submitAndVerify_def Let_def verifyAssetOwnership_eq f
    by (auto simp: call_fetchAsset_def fetches_in_append split: sum.splits option.splits)
qed

text \<open>The run of the whole operation once the submission is reached.\<close>

lemma transferNFT_submitted:
  assumes "getBalance w = Inr b" "10000000 \<le> b" "createUmi w = None"
    and "fetchAsset w 0 = Inr (Some a)" "asset_owner a = wallet_publicKey c"
    and "wallet_publicKey c \<noteq> DESTINATION_WALLET c"
  shows "transferNFT c w =
    (let A = ASSET_ADDRESS c; D = DESTINATION_WALLET c;
         tr1 = [GetBalance, CreateUmi, FetchAsset A (Inr (Some a))]
                 @ submission (directTransferParams c a) (sendAndConfirm w)
                 @ [Sleep 5000, FetchAsset A (fetchAsset w 1)];
         tr2 = tr1 @ [FetchAsset A (fetchAsset w 2)];
         tr3 = tr2 @ [CreateUmi, Sleep 5000, FetchAsset A (fetchAsset w 3)]
     in if shows_owner D (fetchAsset w 1) then (RetBool True, tr1)
        else (case fetchAsset w 2 of
                Inl e \<Rightarrow> (RetBool (shows_owner D (fetchAsset w 3)), tr3)
              | Inr x \<Rightarrow> (RetBool (shows_owner D (fetchAsset w 2)), tr2)))"
  unfolding transferNFT_def try_reaches_submission [OF assms] submitAndVerify_eq
    verifyAssetOwnership_eq Let_def
  using assms(3)
  by (auto simp: fetches_in_append numeral_2_eq_2 numeral_3_eq_3 split: sum.splits)

lemma reads_after_submission_run [simp]:
  "reads_after_submission (submission p outcome @ rest) = responses_of rest"
  using submission_shape [of p outcome] by auto

lemma shows_owner_iff: "shows_owner k r \<longleftrightarrow> (\<exists>a. r = Inr (Some a) \<and> asset_owner a = k)"
  by (cases "(k, r)" rule: shows_owner.cases) auto

lemmas direct_run_defs = transferNFT_def transferNFT_try_def submitAndVerify_def
  verifyAssetOwnership_def call_fetchAsset_def submission_def directTransferParams_def

subsection \<open>Ownership decides the result\<close>

text \<open>
  C5: once the transfer has been handed to the SDK, whatever the submission does (the SDK
  throws, the send throws, or a signature comes back, with or without a reported error),
  \<^verbatim>\<open>transferNFT\<close> returns a boolean, and it returns true exactly when one of the reads of
  the asset made after the submission shows the destination in the owner field. The
  returned value does not depend on the outcome of the submission: a signature alone
  never gives true, and a client-side error never gives false when a read shows the
  destination.
\<close>

theorem C5_ownership_decides:
  assumes "getBalance w = Inr b" and "10000000 \<le> b" and "createUmi w = None"
    and "fetchAsset w 0 = Inr (Some a)" and "asset_owner a = wallet_publicKey c"
    and "wallet_publicKey c \<noteq> DESTINATION_WALLET c"
  shows "(\<exists>p. TransferV1 p \<in> set (snd (transferNFT c w)))
       \<and> reads_after_submission (snd (transferNFT c w)) \<noteq> []
       \<and> fst (transferNFT c w) =
           RetBool (\<exists>r \<in> set (reads_after_submission (snd (transferNFT c w))).
                      shows_owner (DESTINATION_WALLET c) r)
       \<and> (\<forall>outcome. fst (transferNFT c (w\<lparr>sendAndConfirm := outcome\<rparr>)) = fst (transferNFT c w))"
proof -
  note run = transferNFT_submitted [OF assms]
  have sub: "\<exists>p. TransferV1 p \<in> set (snd (transferNFT c w))"
    unfolding run Let_def using submission_shape [of "directTransferParams c a" "sendAndConfirm w"]
    by (auto split: sum.splits)
  have reads: "reads_after_submission (snd (transferNFT c w)) \<noteq> []"
    unfolding run Let_def
    by (simp add: responses_of_append split: sum.splits)
  have res: "fst (transferNFT c w) =
           RetBool (\<exists>r \<in> set (reads_after_submission (snd (transferNFT c w))).
                      shows_owner (DESTINATION_WALLET c) r)"
    unfolding run Let_def
    by (auto simp: responses_of_append split: sum.splits)
  have ind: "fst (transferNFT c (w\<lparr>sendAndConfirm := outcome\<rparr>)) = fst (transferNFT c w)" for outcome
  proof -
    have "fst (transferNFT c (w\<lparr>sendAndConfirm := outcome\<rparr>)) =
      (if shows_owner (DESTINATION_WALLET c) (fetchAsset w 1) then RetBool True
       else (case fetchAsset w 2 of
               Inl e \<Rightarrow> RetBool (shows_owner (DESTINATION_WALLET c) (fetchAsset w 3))
             | Inr x \<Rightarrow> RetBool (shows_owner (DESTINATION_WALLET c) (fetchAsset w 2))))"
      using assms
      by (subst transferNFT_submitted [of _ b a]) (simp_all add: Let_def split: sum.splits)
    moreover have "fst (transferNFT c w) =
      (if shows_owner (DESTINATION_WALLET c) (fetchAsset w 1) then RetBool True
       else (case fetchAsset w 2 of
               Inl e \<Rightarrow> RetBool (shows_owner (DESTINATION_WALLET c) (fetchAsset w 3))
             | Inr x \<Rightarrow> RetBool (shows_owner (DESTINATION_WALLET c) (fetchAsset w 2))))"
      unfolding run by (simp add: Let_def split: sum.splits)
    ultimately show ?thesis by simp
  qed
  from sub reads res ind show ?thesis by blast
qed

text \<open>
  A signature came back but the owner never changed: false. The send threw but the next
  read shows the destination: true.
\<close>

theorem C5_ownership_decides_witness:
  "fst (transferNFT
     \<lparr>wallet_publicKey = PublicKey ''Vote111111111111111111111111111111111111111'',
      ASSET_ADDRESS = PublicKey ''TokenkegQfeZyiNwAJbNbGKPFXCWuBvf9Ss623VQ5DA'',
      DESTINATION_WALLET = PublicKey ''Stake11111111111111111111111111111111111111'',
      COLLECTION_ADDRESS = None\<rparr>
     \<lparr>getBalance = Inr 2000000000, createUmi = None,
      fetchAsset = (\<lambda>k. Inr (Some \<lparr>asset_name = ''nft'',
         asset_owner = PublicKey ''Vote111111111111111111111111111111111111111'',
         asset_collection = None\<rparr>)),
      sendAndConfirm = Sent ''5VERv8NMvzbJMEkV8xnrLkEaWRtSz9CosKDYjCJjBRnb'' True\<rparr>) = RetBool False
   \<and> fst (transferNFT
     \<lparr>wallet_publicKey = PublicKey ''Vote111111111111111111111111111111111111111'',
      ASSET_ADDRESS = PublicKey ''TokenkegQfeZyiNwAJbNbGKPFXCWuBvf9Ss623VQ5DA'',
      DESTINATION_WALLET = PublicKey ''Stake11111111111111111111111111111111111111'',
      COLLECTION_ADDRESS = None\<rparr>
     \<lparr>getBalance = Inr 2000000000, createUmi = None,
      fetchAsset = (\<lambda>k. Inr (Some \<lparr>asset_name = ''nft'',
         asset_owner = (if k = 0 then PublicKey ''Vote111111111111111111111111111111111111111''
                        else PublicKey ''Stake11111111111111111111111111111111111111''),
         asset_collection = None\<rparr>)),
      sendAndConfirm = SendThrows (External ''block height exceeded'')\<rparr>) = RetBool True"
proof -
  let ?c = "\<lparr>wallet_publicKey = PublicKey ''Vote111111111111111111111111111111111111111'',
      ASSET_ADDRESS = PublicKey ''TokenkegQfeZyiNwAJbNbGKPFXCWuBvf9Ss623VQ5DA'',
      DESTINATION_WALLET = PublicKey ''Stake11111111111111111111111111111111111111'',
      COLLECTION_ADDRESS = None\<rparr>"
  let ?a = "\<lparr>asset_name = ''nft'',
         asset_owner = PublicKey ''Vote111111111111111111111111111111111111111'',
         asset_collection = None\<rparr>"
  let ?w1 = "\<lparr>getBalance = Inr 2000000000, createUmi = None,
      fetchAsset = (\<lambda>k. Inr (Some \<lparr>asset_name = ''nft'',
         asset_owner = PublicKey ''Vote111111111111111111111111111111111111111'',
         asset_collection = None\<rparr>)),
      sendAndConfirm = Sent ''5VERv8NMvzbJMEkV8xnrLkEaWRtSz9CosKDYjCJjBRnb'' True\<rparr>"
  let ?w2 = "\<lparr>getBalance = Inr 2000000000, createUmi = None,
      fetchAsset = (\<lambda>k. Inr (Some \<lparr>asset_name = ''nft'',
         asset_owner = (if k = 0 then PublicKey ''Vote111111111111111111111111111111111111111''
                        else PublicKey ''Stake11111111111111111111111111111111111111''),
         asset_collection = None\<rparr>)),
      sendAndConfirm = SendThrows (External ''block height exceeded'')\<rparr>"
  have t1: "snd (transferNFT ?c ?w1) =
      [GetBalance, CreateUmi, FetchAsset (ASSET_ADDRESS ?c) (Inr (Some ?a)),
       TransferV1 (directTransferParams ?c ?a), SendAndConfirm, Sleep 5000,
       FetchAsset (ASSET_ADDRESS ?c) (Inr (Some ?a)), FetchAsset (ASSET_ADDRESS ?c) (Inr (Some ?a))]"
    by (simp add: direct_run_defs)
  have t2: "reads_after_submission (snd (transferNFT ?c ?w2)) =
      [Inr (Some \<lparr>asset_name = ''nft'',
         asset_owner = PublicKey ''Stake11111111111111111111111111111111111111'',
         asset_collection = None\<rparr>)]"
    by (simp add: direct_run_defs)
  from C5_ownership_decides [of ?w1 2000000000 ?a ?c]
  have r1: "fst (transferNFT ?c ?w1) = RetBool False"
    unfolding t1 by simp
  from C5_ownership_decides [of ?w2 2000000000 ?a ?c]
  have r2: "fst (transferNFT ?c ?w2) = RetBool True"
    unfolding t2 by simp
  from r1 r2 show ?thesis by simp
qed

subsection \<open>Failed verification\<close>

lemma try_verification_fails:
  assumes "getBalance w = Inr b" and "10000000 \<le> b" and "createUmi w = None"
    and "\<forall>a. fetchAsset w 0 = Inr (Some a) \<longrightarrow>
           asset_owner a \<noteq> DESTINATION_WALLET c \<and> asset_owner a \<noteq> wallet_publicKey c"
  shows "\<exists>e. transferNFT_try c w =
            (Inl e, [GetBalance, CreateUmi, FetchAsset (ASSET_ADDRESS c) (fetchAsset w 0)])
          \<and> (case fetchAsset w 0 of Inl x \<Rightarrow> e = x | Inr found \<Rightarrow> is_VerificationError e)"
  using assms
  by (auto simp: transferNFT_try_def call_fetchAsset_def split: sum.splits option.splits)

lemma retrieve_aborts_quietly:
  assumes "\<not> verifyNFTInSafe (getAccountInfo sw 0)"
  shows "\<forall>ev \<in> set (fst (retrieveNFTFromSafe sc sw)). \<not> builds_or_submits ev"
  using assms by (auto simp: retrieveNFTFromSafe_def split: option.splits)

text \<open>
  C6, as stated, at a run where the first read shows a third party as owner and the next
  read shows the destination: the "not the owner" error is thrown, caught by
  \<^verbatim>\<open>transferNFT\<close> itself, and the operation returns true (exit code 0). It does not fail.
\<close>

theorem C6_operation_succeeds_counterexample:
  "fst (transferNFT_try
     \<lparr>wallet_publicKey = PublicKey ''Vote111111111111111111111111111111111111111'',
      ASSET_ADDRESS = PublicKey ''TokenkegQfeZyiNwAJbNbGKPFXCWuBvf9Ss623VQ5DA'',
      DESTINATION_WALLET = PublicKey ''Stake11111111111111111111111111111111111111'',
      COLLECTION_ADDRESS = None\<rparr>
     \<lparr>getBalance = Inr 2000000000, createUmi = None,
      fetchAsset = (\<lambda>k. Inr (Some \<lparr>asset_name = ''nft'',
         asset_owner = (if k = 0 then PublicKey ''Config1111111111111111111111111111111111111'' else PublicKey ''Stake11111111111111111111111111111111111111''),
         asset_collection = None\<rparr>)),
      sendAndConfirm = Sent ''5VERv8NMvzbJMEkV8xnrLkEaWRtSz9CosKDYjCJjBRnb'' True\<rparr>) = Inl (NotOwner (PublicKey ''Config1111111111111111111111111111111111111''))
   \<and> fst (transferNFT
     \<lparr>wallet_publicKey = PublicKey ''Vote111111111111111111111111111111111111111'',
      ASSET_ADDRESS = PublicKey ''TokenkegQfeZyiNwAJbNbGKPFXCWuBvf9Ss623VQ5DA'',
      DESTINATION_WALLET = PublicKey ''Stake11111111111111111111111111111111111111'',
      COLLECTION_ADDRESS = None\<rparr>
     \<lparr>getBalance = Inr 2000000000, createUmi = None,
      fetchAsset = (\<lambda>k. Inr (Some \<lparr>asset_name = ''nft'',
         asset_owner = (if k = 0 then PublicKey ''Config1111111111111111111111111111111111111'' else PublicKey ''Stake11111111111111111111111111111111111111''),
         asset_collection = None\<rparr>)),
      sendAndConfirm = Sent ''5VERv8NMvzbJMEkV8xnrLkEaWRtSz9CosKDYjCJjBRnb'' True\<rparr>) = RetBool True
   \<and> exit_code (fst (transferNFT
     \<lparr>wallet_publicKey = PublicKey ''Vote111111111111111111111111111111111111111'',
      ASSET_ADDRESS = PublicKey ''TokenkegQfeZyiNwAJbNbGKPFXCWuBvf9Ss623VQ5DA'',
      DESTINATION_WALLET = PublicKey ''Stake11111111111111111111111111111111111111'',
      COLLECTION_ADDRESS = None\<rparr>
     \<lparr>getBalance = Inr 2000000000, createUmi = None,
      fetchAsset = (\<lambda>k. Inr (Some \<lparr>asset_name = ''nft'',
         asset_owner = (if k = 0 then PublicKey ''Config1111111111111111111111111111111111111'' else PublicKey ''Stake11111111111111111111111111111111111111''),
         asset_collection = None\<rparr>)),
      sendAndConfirm = Sent ''5VERv8NMvzbJMEkV8xnrLkEaWRtSz9CosKDYjCJjBRnb'' True\<rparr>)) = 0"
  by (simp add: direct_run_defs)

text \<open>
  C6, amended: when the pre-transfer verification fails, no transfer instruction is made
  and nothing is submitted. In the direct script (the asset read throws or finds nothing,
  or the owner it shows is neither the destination nor the caller) an error is thrown
  inside the \<^verbatim>\<open>try\<close> block (the read's own exception, "Asset not found on chain" or
  "You are not the owner of this asset") and caught by \<^verbatim>\<open>transferNFT\<close> itself, which
  reads the asset once more and returns whether that read shows the destination as
  owner. In the Safe script (the account read throws, finds nothing, or finds an account
  not owned by the Metaplex Core program) \<^verbatim>\<open>verifyNFTInSafe\<close> returns false and the run
  ends there without throwing.
\<close>

theorem C6_verification_aborts:
  "(getBalance w = Inr b \<and> 10000000 \<le> b \<and> createUmi w = None \<and>
      (\<forall>a. fetchAsset w 0 = Inr (Some a) \<longrightarrow>
           asset_owner a \<noteq> DESTINATION_WALLET c \<and> asset_owner a \<noteq> wallet_publicKey c)
    \<longrightarrow> (\<exists>e. fst (transferNFT_try c w) = Inl e
              \<and> (case fetchAsset w 0 of Inl x \<Rightarrow> e = x | Inr found \<Rightarrow> is_VerificationError e))
        \<and> snd (transferNFT c w) =
            [GetBalance, CreateUmi, FetchAsset (ASSET_ADDRESS c) (fetchAsset w 0),
             CreateUmi, Sleep 5000, FetchAsset (ASSET_ADDRESS c) (fetchAsset w 1)]
        \<and> (\<forall>ev \<in> set (snd (transferNFT c w)). \<not> builds_or_submits ev)
        \<and> fst (transferNFT c w) = RetBool (shows_owner (DESTINATION_WALLET c) (fetchAsset w 1)))
   \<and> (\<not> verifyNFTInSafe (getAccountInfo sw 0)
    \<longrightarrow> (\<forall>ev \<in> set (fst (retrieveNFTFromSafe sc sw)). \<not> builds_or_submits ev)
        \<and> (setupConnection sw = None \<and> initializeUmi sw
           \<longrightarrow> retrieveNFTFromSafe sc sw =
                 ([SetupConnection, InitializeUmi, InitializeSafe,
                   GetAccountInfo (NFT_ASSET_ADDRESS sc)], AbortedVerification)))
   \<and> \<not> verifyNFTInSafe (Inl err) \<and> \<not> verifyNFTInSafe (Inr None)
   \<and> (ai_owner info \<noteq> METAPLEX_CORE_PROGRAM_ID \<longrightarrow> \<not> verifyNFTInSafe (Inr (Some info)))"
proof (intro conjI impI)
  assume h: "getBalance w = Inr b \<and> 10000000 \<le> b \<and> createUmi w = None \<and>
      (\<forall>a. fetchAsset w 0 = Inr (Some a) \<longrightarrow>
           asset_owner a \<noteq> DESTINATION_WALLET c \<and> asset_owner a \<noteq> wallet_publicKey c)"
  then obtain e where e: "transferNFT_try c w =
            (Inl e, [GetBalance, CreateUmi, FetchAsset (ASSET_ADDRESS c) (fetchAsset w 0)])"
      "case fetchAsset w 0 of Inl x \<Rightarrow> e = x | Inr found \<Rightarrow> is_VerificationError e"
    using try_verification_fails [of w b c] by blast
  from e show "\<exists>e. fst (transferNFT_try c w) = Inl e
              \<and> (case fetchAsset w 0 of Inl x \<Rightarrow> e = x | Inr found \<Rightarrow> is_VerificationError e)"
    by auto
  from h have u: "createUmi w = None" by simp
  show t: "snd (transferNFT c w) =
            [GetBalance, CreateUmi, FetchAsset (ASSET_ADDRESS c) (fetchAsset w 0),
             CreateUmi, Sleep 5000, FetchAsset (ASSET_ADDRESS c) (fetchAsset w 1)]"
    by (simp add: transferNFT_def e(1) u verifyAssetOwnership_eq)
  show "\<forall>ev \<in> set (snd (transferNFT c w)). \<not> builds_or_submits ev"
    unfolding t by simp
  show "fst (transferNFT c w) = RetBool (shows_owner (DESTINATION_WALLET c) (fetchAsset w 1))"
    by (simp add: transferNFT_def e(1) u verifyAssetOwnership_eq)
next
  assume "\<not> verifyNFTInSafe (getAccountInfo sw 0)"
  then show "\<forall>ev \<in> set (fst (retrieveNFTFromSafe sc sw)). \<not> builds_or_submits ev"
    by (rule retrieve_aborts_quietly)
next
  assume "\<not> verifyNFTInSafe (getAccountInfo sw 0)" and "setupConnection sw = None \<and> initializeUmi sw"
  then show "retrieveNFTFromSafe sc sw =
                 ([SetupConnection, InitializeUmi, InitializeSafe,
                   GetAccountInfo (NFT_ASSET_ADDRESS sc)], AbortedVerification)"
    by (simp add: retrieveNFTFromSafe_def)
next
  show "\<not> verifyNFTInSafe (Inl err)" by (simp add: verifyNFTInSafe_def)
  show "\<not> verifyNFTInSafe (Inr None)" by (simp add: verifyNFTInSafe_def)
next
  assume "ai_owner info \<noteq> METAPLEX_CORE_PROGRAM_ID"
  then show "\<not> verifyNFTInSafe (Inr (Some info))" by (simp add: verifyNFTInSafe_def)
qed

text \<open>
  The owner is a third party at every read: the direct script returns false after two
  reads. The asset account belongs to another program: the Safe script stops after its
  account read.
\<close>

theorem C6_verification_aborts_witness:
  "transferNFT
     \<lparr>wallet_publicKey = PublicKey ''Vote111111111111111111111111111111111111111'',
      ASSET_ADDRESS = PublicKey ''TokenkegQfeZyiNwAJbNbGKPFXCWuBvf9Ss623VQ5DA'',
      DESTINATION_WALLET = PublicKey ''Stake11111111111111111111111111111111111111'',
      COLLECTION_ADDRESS = None\<rparr>
     \<lparr>getBalance = Inr 2000000000, createUmi = None,
      fetchAsset = (\<lambda>k. Inr (Some \<lparr>asset_name = ''nft'',
         asset_owner = PublicKey ''Config1111111111111111111111111111111111111'',
         asset_collection = None\<rparr>)),
      sendAndConfirm = Sent ''5VERv8NMvzbJMEkV8xnrLkEaWRtSz9CosKDYjCJjBRnb'' True\<rparr>
   = (RetBool False,
      [GetBalance, CreateUmi,
       FetchAsset (PublicKey ''TokenkegQfeZyiNwAJbNbGKPFXCWuBvf9Ss623VQ5DA'') (Inr (Some \<lparr>asset_name = ''nft'', asset_owner = PublicKey ''Config1111111111111111111111111111111111111'', asset_collection = None\<rparr>)),
       CreateUmi, Sleep 5000,
       FetchAsset (PublicKey ''TokenkegQfeZyiNwAJbNbGKPFXCWuBvf9Ss623VQ5DA'') (Inr (Some \<lparr>asset_name = ''nft'', asset_owner = PublicKey ''Config1111111111111111111111111111111111111'', asset_collection = None\<rparr>))])
   \<and> retrieveNFTFromSafe
     \<lparr>SAFE_ADDRESS = PublicKey ''Vote111111111111111111111111111111111111111'',
      NFT_ASSET_ADDRESS = PublicKey ''TokenkegQfeZyiNwAJbNbGKPFXCWuBvf9Ss623VQ5DA'',
      DESTINATION_WALLET_safe = PublicKey ''Stake11111111111111111111111111111111111111''\<rparr>
     \<lparr>setupConnection = None, initializeUmi = True, sdk_bindings = None,
      accepted_keys = {''Memo1UhkJRfHyvLMcVucJwxXeuD728EqVDDwQDxFMNo''},
      env_NFT_COLLECTION_ADDRESS = Some ''Memo1UhkJRfHyvLMcVucJwxXeuD728EqVDDwQDxFMNo'',
      env_EXISTING_PROPOSAL = None,
      getAccountInfo = (\<lambda>k. Inr (Some \<lparr>ai_owner = PublicKey ''TokenkegQfeZyiNwAJbNbGKPFXCWuBvf9Ss623VQ5DA'', ai_data_length = 165\<rparr>)),
      findSafeSignerAddress = Inr (PublicKey ''SysvarC1ock11111111111111111111111111111111''),
      safe_createProposal = (\<lambda>ix. Inr (PublicKey ''Config1111111111111111111111111111111111111'')),
      safe_fetchSafe = Inr 1, safe_fetchProposal = Inr [True],
      safe_executeProposal = (\<lambda>k. Inr ''5VERv8NMvzbJMEkV8xnrLkEaWRtSz9CosKDYjCJjBRnb'')\<rparr>
   = ([SetupConnection, InitializeUmi, InitializeSafe,
       GetAccountInfo (PublicKey ''TokenkegQfeZyiNwAJbNbGKPFXCWuBvf9Ss623VQ5DA'')], AbortedVerification)"
proof -
  let ?c = "\<lparr>wallet_publicKey = PublicKey ''Vote111111111111111111111111111111111111111'',
      ASSET_ADDRESS = PublicKey ''TokenkegQfeZyiNwAJbNbGKPFXCWuBvf9Ss623VQ5DA'',
      DESTINATION_WALLET = PublicKey ''Stake11111111111111111111111111111111111111'',
      COLLECTION_ADDRESS = None\<rparr>"
  let ?w = "\<lparr>getBalance = Inr 2000000000, createUmi = None,
      fetchAsset = (\<lambda>k. Inr (Some \<lparr>asset_name = ''nft'',
         asset_owner = PublicKey ''Config1111111111111111111111111111111111111'',
         asset_collection = None\<rparr>)),
      sendAndConfirm = Sent ''5VERv8NMvzbJMEkV8xnrLkEaWRtSz9CosKDYjCJjBRnb'' True\<rparr>"
  let ?sc = "\<lparr>SAFE_ADDRESS = PublicKey ''Vote111111111111111111111111111111111111111'',
      NFT_ASSET_ADDRESS = PublicKey ''TokenkegQfeZyiNwAJbNbGKPFXCWuBvf9Ss623VQ5DA'',
      DESTINATION_WALLET_safe = PublicKey ''Stake11111111111111111111111111111111111111''\<rparr>"
  let ?sw = "\<lparr>setupConnection = None, initializeUmi = True, sdk_bindings = None,
      accepted_keys = {''Memo1UhkJRfHyvLMcVucJwxXeuD728EqVDDwQDxFMNo''},
      env_NFT_COLLECTION_ADDRESS = Some ''Memo1UhkJRfHyvLMcVucJwxXeuD728EqVDDwQDxFMNo'',
      env_EXISTING_PROPOSAL = None,
      getAccountInfo = (\<lambda>k. Inr (Some \<lparr>ai_owner = PublicKey ''TokenkegQfeZyiNwAJbNbGKPFXCWuBvf9Ss623VQ5DA'', ai_data_length = 165\<rparr>)),
      findSafeSignerAddress = Inr (PublicKey ''SysvarC1ock11111111111111111111111111111111''),
      safe_createProposal = (\<lambda>ix. Inr (PublicKey ''Config1111111111111111111111111111111111111'')),
      safe_fetchSafe = Inr 1, safe_fetchProposal = Inr [True],
      safe_executeProposal = (\<lambda>k. Inr ''5VERv8NMvzbJMEkV8xnrLkEaWRtSz9CosKDYjCJjBRnb'')\<rparr>"
  let ?info = "\<lparr>ai_owner = PublicKey ''TokenkegQfeZyiNwAJbNbGKPFXCWuBvf9Ss623VQ5DA'', ai_data_length = 165\<rparr>"
  have v: "\<not> verifyNFTInSafe (getAccountInfo ?sw 0)"
    by (simp add: verifyNFTInSafe_def METAPLEX_CORE_PROGRAM_ID_def)
  from C6_verification_aborts [of ?w 2000000000 ?c ?sw ?sc "External ''unused''" ?info] v
  have d: "snd (transferNFT ?c ?w) =
            [GetBalance, CreateUmi, FetchAsset (ASSET_ADDRESS ?c) (fetchAsset ?w 0),
             CreateUmi, Sleep 5000, FetchAsset (ASSET_ADDRESS ?c) (fetchAsset ?w 1)]"
    and r: "fst (transferNFT ?c ?w) = RetBool (shows_owner (DESTINATION_WALLET ?c) (fetchAsset ?w 1))"
    and s: "retrieveNFTFromSafe ?sc ?sw =
                 ([SetupConnection, InitializeUmi, InitializeSafe,
                   GetAccountInfo (NFT_ASSET_ADDRESS ?sc)], AbortedVerification)"
    by simp_all
  from d r have "transferNFT ?c ?w = (RetBool False,
      [GetBalance, CreateUmi,
       FetchAsset (PublicKey ''TokenkegQfeZyiNwAJbNbGKPFXCWuBvf9Ss623VQ5DA'') (Inr (Some \<lparr>asset_name = ''nft'', asset_owner = PublicKey ''Config1111111111111111111111111111111111111'', asset_collection = None\<rparr>)),
       CreateUmi, Sleep 5000,
       FetchAsset (PublicKey ''TokenkegQfeZyiNwAJbNbGKPFXCWuBvf9Ss623VQ5DA'') (Inr (Some \<lparr>asset_name = ''nft'', asset_owner = PublicKey ''Config1111111111111111111111111111111111111'', asset_collection = None\<rparr>))])"
    by (simp add: prod_eq_iff)
  with s show ?thesis by simp
qed

subsection \<open>Asset already at the destination\<close>

lemma no_submission_when_owned:
  assumes "\<forall>k. shows_owner (DESTINATION_WALLET c) (fetchAsset w k)"
  shows "\<forall>ev \<in> set (snd (transferNFT c w)). \<not> builds_or_submits ev"
proof -
  from assms have "shows_owner (DESTINATION_WALLET c) (fetchAsset w 0)" by blast
  then obtain a where a: "fetchAsset w 0 = Inr (Some a)" "asset_owner a = DESTINATION_WALLET c"
    by (auto simp: shows_owner_iff)
  show ?thesis
    using a
    by (auto simp: transferNFT_def transferNFT_try_def call_fetchAsset_def verifyAssetOwnership_eq
        split: sum.splits option.splits)
qed

text \<open>
  C7, as stated, at a wallet holding 0.005 SOL while every read shows the destination as
  owner: the balance guard throws before the asset is read, the \<^verbatim>\<open>catch\<close> checks the
  ownership and the operation returns true, not the "no transfer needed" text.
\<close>

theorem C7_low_balance_counterexample:
  "(\<forall>k. shows_owner (PublicKey ''Stake11111111111111111111111111111111111111'')
          (fetchAsset \<lparr>getBalance = Inr 5000000, createUmi = None,
      fetchAsset = (\<lambda>k. Inr (Some \<lparr>asset_name = ''nft'',
         asset_owner = PublicKey ''Stake11111111111111111111111111111111111111'',
         asset_collection = None\<rparr>)),
      sendAndConfirm = Sent ''5VERv8NMvzbJMEkV8xnrLkEaWRtSz9CosKDYjCJjBRnb'' True\<rparr> k))
   \<and> fst (transferNFT
     \<lparr>wallet_publicKey = PublicKey ''Vote111111111111111111111111111111111111111'',
      ASSET_ADDRESS = PublicKey ''TokenkegQfeZyiNwAJbNbGKPFXCWuBvf9Ss623VQ5DA'',
      DESTINATION_WALLET = PublicKey ''Stake11111111111111111111111111111111111111'',
      COLLECTION_ADDRESS = None\<rparr>
     \<lparr>getBalance = Inr 5000000, createUmi = None,
      fetchAsset = (\<lambda>k. Inr (Some \<lparr>asset_name = ''nft'',
         asset_owner = PublicKey ''Stake11111111111111111111111111111111111111'',
         asset_collection = None\<rparr>)),
      sendAndConfirm = Sent ''5VERv8NMvzbJMEkV8xnrLkEaWRtSz9CosKDYjCJjBRnb'' True\<rparr>) = RetBool True
   \<and> fst (transferNFT
     \<lparr>wallet_publicKey = PublicKey ''Vote111111111111111111111111111111111111111'',
      ASSET_ADDRESS = PublicKey ''TokenkegQfeZyiNwAJbNbGKPFXCWuBvf9Ss623VQ5DA'',
      DESTINATION_WALLET = PublicKey ''Stake11111111111111111111111111111111111111'',
      COLLECTION_ADDRESS = None\<rparr>
     \<lparr>getBalance = Inr 5000000, createUmi = None,
      fetchAsset = (\<lambda>k. Inr (Some \<lparr>asset_name = ''nft'',
         asset_owner = PublicKey ''Stake11111111111111111111111111111111111111'',
         asset_collection = None\<rparr>)),
      sendAndConfirm = Sent ''5VERv8NMvzbJMEkV8xnrLkEaWRtSz9CosKDYjCJjBRnb'' True\<rparr>) \<noteq> RetString ''No transfer needed - already owned by destination wallet''"
  by (simp add: direct_run_defs)

text \<open>
  C7, amended: when the balance guard has passed (the balance read succeeded with at least
  0.01 SOL and the Umi instance was made) and the asset read shows the destination as
  owner, \<^verbatim>\<open>transferNFT\<close> returns "No transfer needed - already owned by destination
  wallet" after that one read, with no submission. Whatever the balance, a run in which
  every read shows the destination as owner makes no transfer and submits nothing.
\<close>

theorem C7_already_owned:
  "(getBalance w = Inr b \<and> 10000000 \<le> b \<and> createUmi w = None
      \<and> fetchAsset w 0 = Inr (Some a) \<and> asset_owner a = DESTINATION_WALLET c
    \<longrightarrow> transferNFT c w =
          (RetString ''No transfer needed - already owned by destination wallet'',
           [GetBalance, CreateUmi, FetchAsset (ASSET_ADDRESS c) (Inr (Some a))]))
   \<and> ((\<forall>k. shows_owner (DESTINATION_WALLET c) (fetchAsset w k))
    \<longrightarrow> (\<forall>ev \<in> set (snd (transferNFT c w)). \<not> builds_or_submits ev))"
  using no_submission_when_owned [of c w]
  by (auto simp: transferNFT_def transferNFT_try_def call_fetchAsset_def)

text \<open>A funded wallet and an asset that is already at the destination.\<close>

theorem C7_already_owned_witness:
  "transferNFT
     \<lparr>wallet_publicKey = PublicKey ''Vote111111111111111111111111111111111111111'',
      ASSET_ADDRESS = PublicKey ''TokenkegQfeZyiNwAJbNbGKPFXCWuBvf9Ss623VQ5DA'',
      DESTINATION_WALLET = PublicKey ''Stake11111111111111111111111111111111111111'',
      COLLECTION_ADDRESS = None\<rparr>
     \<lparr>getBalance = Inr 2000000000, createUmi = None,
      fetchAsset = (\<lambda>k. Inr (Some \<lparr>asset_name = ''nft'',
         asset_owner = PublicKey ''Stake11111111111111111111111111111111111111'',
         asset_collection = None\<rparr>)),
      sendAndConfirm = Sent ''5VERv8NMvzbJMEkV8xnrLkEaWRtSz9CosKDYjCJjBRnb'' True\<rparr>
   = (RetString ''No transfer needed - already owned by destination wallet'',
      [GetBalance, CreateUmi,
       FetchAsset (PublicKey ''TokenkegQfeZyiNwAJbNbGKPFXCWuBvf9Ss623VQ5DA'') (Inr (Some \<lparr>asset_name = ''nft'', asset_owner = PublicKey ''Stake11111111111111111111111111111111111111'', asset_collection = None\<rparr>))])"
  using C7_already_owned [of "\<lparr>getBalance = Inr 2000000000, createUmi = None,
      fetchAsset = (\<lambda>k. Inr (Some \<lparr>asset_name = ''nft'',
         asset_owner = PublicKey ''Stake11111111111111111111111111111111111111'',
         asset_collection = None\<rparr>)),
      sendAndConfirm = Sent ''5VERv8NMvzbJMEkV8xnrLkEaWRtSz9CosKDYjCJjBRnb'' True\<rparr>" 2000000000 "\<lparr>asset_name = ''nft'', asset_owner = PublicKey ''Stake11111111111111111111111111111111111111'', asset_collection = None\<rparr>" "\<lparr>wallet_publicKey = PublicKey ''Vote111111111111111111111111111111111111111'',
      ASSET_ADDRESS = PublicKey ''TokenkegQfeZyiNwAJbNbGKPFXCWuBvf9Ss623VQ5DA'',
      DESTINATION_WALLET = PublicKey ''Stake11111111111111111111111111111111111111'',
      COLLECTION_ADDRESS = None\<rparr>"]
  by simp

end
